theory Spec2Isabelle
  imports Main "HOL-Library.Word"
begin

section \<open>HPy trace context (trace\_ctx.c), POSIX build\<close>

text \<open>
  The development follows \<^verbatim>\<open>trace_ctx.c\<close> as it is compiled when \<^verbatim>\<open>_WIN32\<close> is not
  defined: a time value is a \<^verbatim>\<open>struct timespec\<close> (seconds and nanoseconds) and a clock
  status is the \<^verbatim>\<open>int\<close> that the clock read returned.

  C's signed arithmetic has no defined result on overflow, and an aborting \<^verbatim>\<open>assert\<close>
  exists only in builds without \<^verbatim>\<open>NDEBUG\<close>. Both are kept visible: a computation ends in
  a \<open>fault\<close> where the source has undefined behaviour or where an assertion aborts, and
  every function that contains an \<^verbatim>\<open>assert\<close> takes the flag \<open>ndebug\<close>.
\<close>

subsection \<open>Time values\<close>

record timespec =
  tv_sec :: int
  tv_nsec :: int

text \<open>
  Modelled from the spec: the macro \<^verbatim>\<open>FREQ_NSEC\<close> is declared in \<^verbatim>\<open>trace_internal.h\<close>,
  which is not part of the sources at hand; it is the full period of the fine unit of a
  nanosecond-resolution duration, the number of nanoseconds in a second.
\<close>

definition FREQ_NSEC :: int where
  "FREQ_NSEC = 1000000000"

text \<open>\<^verbatim>\<open>time_t\<close> and \<^verbatim>\<open>long\<close> on an LP64 platform: 64-bit two's complement.\<close>

definition in_int64 :: "int \<Rightarrow> bool" where
  "in_int64 v \<longleftrightarrow> - (2 ^ 63) \<le> v \<and> v < 2 ^ 63"

datatype fault = AssertionFailed | SignedOverflow | OutOfBounds | NullDereference

text \<open>
  The values of the arithmetic sub-expressions of \<^verbatim>\<open>update_duration\<close>, in the order in
  which C evaluates them. \<^verbatim>\<open>a - b - 1\<close> is \<^verbatim>\<open>(a - b) - 1\<close> and \<^verbatim>\<open>a - b + c\<close> is
  \<^verbatim>\<open>(a - b) + c\<close>; \<^verbatim>\<open>x += e\<close> computes \<^verbatim>\<open>x + e\<close> last.
\<close>

definition update_duration_values :: "timespec \<Rightarrow> timespec \<Rightarrow> timespec \<Rightarrow> int list" where
  "update_duration_values res start endt =
     (if tv_nsec endt < tv_nsec start then
        [tv_sec endt - tv_sec start,
         tv_sec endt - tv_sec start - 1,
         tv_sec res + (tv_sec endt - tv_sec start - 1),
         tv_nsec endt - tv_nsec start,
         tv_nsec endt - tv_nsec start + FREQ_NSEC,
         tv_nsec res + (tv_nsec endt - tv_nsec start + FREQ_NSEC)]
      else
        [tv_sec endt - tv_sec start,
         tv_sec res + (tv_sec endt - tv_sec start),
         tv_nsec endt - tv_nsec start,
         tv_nsec res + (tv_nsec endt - tv_nsec start)])"

text \<open>The two closing assertions, \<^verbatim>\<open>res->tv_sec >= 0\<close> and \<^verbatim>\<open>res->tv_nsec >= 0\<close>.\<close>

definition assert_result :: "bool \<Rightarrow> timespec \<Rightarrow> fault + timespec" where
  "assert_result ndebug res =
     (if \<not> ndebug \<and> \<not> (tv_sec res \<ge> 0) then Inl AssertionFailed
      else if \<not> ndebug \<and> \<not> (tv_nsec res \<ge> 0) then Inl AssertionFailed
      else Inr res)"

definition update_duration :: "bool \<Rightarrow> timespec \<Rightarrow> timespec \<Rightarrow> timespec \<Rightarrow> fault + timespec" where
  "update_duration ndebug res start endt =
     (if tv_nsec endt < tv_nsec start then
        (if \<not> ndebug \<and> \<not> (tv_sec endt > tv_sec start) then Inl AssertionFailed
         else if \<not> list_all in_int64 (update_duration_values res start endt)
           then Inl SignedOverflow
         else assert_result ndebug
           \<lparr>tv_sec = tv_sec res + (tv_sec endt - tv_sec start - 1),
            tv_nsec = tv_nsec res + (tv_nsec endt - tv_nsec start + FREQ_NSEC)\<rparr>)
      else
        (if \<not> list_all in_int64 (update_duration_values res start endt)
           then Inl SignedOverflow
         else assert_result ndebug
           \<lparr>tv_sec = tv_sec res + (tv_sec endt - tv_sec start),
            tv_nsec = tv_nsec res + (tv_nsec endt - tv_nsec start)\<rparr>))"

text \<open>
  What \<^verbatim>\<open>*res\<close> holds when \<^verbatim>\<open>update_duration\<close> ends, by returning or in a fault. The
  assertion of the borrow branch comes before any assignment; the two closing assertions
  come after both assignments, so that a build with assertions that stops there has stored
  the sums already. After a signed overflow nothing is known; the old value is given.
\<close>

definition update_duration_stored :: "bool \<Rightarrow> timespec \<Rightarrow> timespec \<Rightarrow> timespec \<Rightarrow> timespec" where
  "update_duration_stored ndebug res start endt =
     (if tv_nsec endt < tv_nsec start then
        (if \<not> ndebug \<and> \<not> (tv_sec endt > tv_sec start) then res
         else if \<not> list_all in_int64 (update_duration_values res start endt) then res
         else \<lparr>tv_sec = tv_sec res + (tv_sec endt - tv_sec start - 1),
               tv_nsec = tv_nsec res + (tv_nsec endt - tv_nsec start + FREQ_NSEC)\<rparr>)
      else
        (if \<not> list_all in_int64 (update_duration_values res start endt) then res
         else \<lparr>tv_sec = tv_sec res + (tv_sec endt - tv_sec start),
               tv_nsec = tv_nsec res + (tv_nsec endt - tv_nsec start)\<rparr>))"

text \<open>A zero-initialised total, and the readings used to speak about time values.\<close>

definition zero_time :: timespec where
  "zero_time = \<lparr>tv_sec = 0, tv_nsec = 0\<rparr>"

definition to_nsec :: "timespec \<Rightarrow> int" where
  "to_nsec t = tv_sec t * FREQ_NSEC + tv_nsec t"

definition normalized :: "timespec \<Rightarrow> bool" where
  "normalized t \<longleftrightarrow> 0 \<le> tv_nsec t \<and> tv_nsec t < FREQ_NSEC"

definition time_le :: "timespec \<Rightarrow> timespec \<Rightarrow> bool" where
  "time_le a b \<longleftrightarrow> tv_sec a < tv_sec b \<or> (tv_sec a = tv_sec b \<and> tv_nsec a \<le> tv_nsec b)"

text \<open>
  Modelled from the spec: the clock is read by the generated call-site wrappers, which are
  not part of the sources at hand (Clock Source: a read gives a timestamp and a status that
  signals whether the read succeeded). On POSIX the read is \<^verbatim>\<open>clock_gettime\<close>, whose status
  is 0 on success and -1 on failure; \<^verbatim>\<open>_HPyClockStatus_t\<close> is \<^verbatim>\<open>int\<close>.
\<close>

datatype clock_read = ClockOk | ClockError

definition clock_status :: "clock_read \<Rightarrow> int" where
  "clock_status c = (case c of ClockOk \<Rightarrow> 0 | ClockError \<Rightarrow> - 1)"

definition in_int32 :: "int \<Rightarrow> bool" where
  "in_int32 v \<longleftrightarrow> - (2 ^ 31) \<le> v \<and> v < 2 ^ 31"

text \<open>\<^verbatim>\<open>#define CLOCK_FAILED(_R0, _R1) ((_R0) + (_R1))\<close>, used as a condition.\<close>

definition CLOCK_FAILED :: "int \<Rightarrow> int \<Rightarrow> bool" where
  "CLOCK_FAILED r0 r1 \<longleftrightarrow> r0 + r1 \<noteq> 0"

subsection \<open>Handles and the underlying context\<close>

text \<open>
  A handle is the integer of \<^verbatim>\<open>struct HPy\<close>; \<^verbatim>\<open>HPy_NULL\<close> is 0. A context is known by its
  address.
\<close>

type_synonym HPy = int

type_synonym ctx_ptr = nat

definition HPy_NULL :: HPy where
  "HPy_NULL = 0"

definition HPy_IsNull :: "HPy \<Rightarrow> bool" where
  "HPy_IsNull h \<longleftrightarrow> h = 0"

text \<open>
  Everything the code does to the outside is recorded, in order, as a list of events: the
  calls made on the underlying context, each with its arguments and (where it has one) the
  value it returned, and the output written to \<^verbatim>\<open>stdout\<close>.
\<close>

datatype event =
    HPyUnicode_FromString ctx_ptr string HPy
  | HPyTuple_FromArray ctx_ptr "HPy list" HPy
  | HPy_Close ctx_ptr HPy
  | HPy_CallTupleDict ctx_ptr HPy HPy HPy HPy
  | HPy_FatalError ctx_ptr string
  | HPyErr_NoMemory ctx_ptr
  | printf string
  | fflush_stdout

text \<open>
  How a call ends: it returns, or \<^verbatim>\<open>HPy_FatalError\<close> has ended the process (modelled from
  the spec: the fatal-error path does not return normally), or it stops in a fault.
\<close>

datatype 'r status = Returned 'r | Fatal string | Faulted fault

subsection \<open>The trace record\<close>

text \<open>
  Modelled from the spec: \<^verbatim>\<open>HPyTraceInfo\<close> is declared in \<^verbatim>\<open>trace_internal.h\<close>; the fields
  are those that \<^verbatim>\<open>trace_ctx.c\<close> uses. The counters are unsigned integers of the 64-bit
  class, one per operation id, and the durations are time values, one per operation id.
\<close>

record HPyTraceInfo =
  uctx :: ctx_ptr
  counter_freq :: timespec
  call_counts :: "64 word list"
  durations :: "timespec list"
  on_enter_func :: HPy
  on_exit_func :: HPy

text \<open>
  Modelled from the spec: the operations of the underlying API context and the operation
  catalog are external collaborators (they are not part of the sources at hand). The catalog
  maps an operation id to its display name; constructing a string, constructing a tuple and
  calling the observer each return a handle, null on failure. What they return is not decided
  by \<^verbatim>\<open>trace_ctx.c\<close>, so it is an input of the model. The observer is user code that can
  read the accounting state, so what its invocation returns may depend on the trace record
  as it is when the observer is invoked.
\<close>

record env =
  hpy_trace_get_func_name :: "int \<Rightarrow> string"
  unicode_result :: "string \<Rightarrow> HPy"
  tuple_result :: "HPy list \<Rightarrow> HPy"
  call_result :: "HPyTraceInfo \<Rightarrow> HPy \<Rightarrow> HPy \<Rightarrow> HPy \<Rightarrow> HPy"

text \<open>
  The trace context: its private slot, and (abstractly) the context from which its fields
  have been filled in.
\<close>

record HPyContext =
  ctx_private :: "HPyTraceInfo option"
  ctx_fields :: "ctx_ptr option"

text \<open>
  Modelled from the spec: \<^verbatim>\<open>get_info\<close> is declared in \<^verbatim>\<open>trace_internal.h\<close>; it gives the
  record installed in the private slot of the trace context.
\<close>

definition get_info :: "HPyContext \<Rightarrow> HPyTraceInfo option" where
  "get_info tctx = ctx_private tctx"

text \<open>
  Modelled from the spec: \<^verbatim>\<open>trace_ctx_init_info\<close> and \<^verbatim>\<open>trace_ctx_init_fields\<close> are
  generated (\<^verbatim>\<open>autogen_trace_ctx_init.h\<close>). The first binds the record to the underlying
  context, gives it zeroed counter and duration storage sized to the operation id space
  (\<open>nfunc\<close> ids) and absent observer hooks; the second fills in the fields of the trace
  context from the underlying one.
\<close>

definition trace_ctx_init_info :: "nat \<Rightarrow> HPyTraceInfo \<Rightarrow> ctx_ptr \<Rightarrow> HPyTraceInfo" where
  "trace_ctx_init_info nfunc info u =
     info\<lparr>uctx := u,
          call_counts := replicate nfunc 0,
          durations := replicate nfunc zero_time,
          on_enter_func := HPy_NULL,
          on_exit_func := HPy_NULL\<rparr>"

definition trace_ctx_init_fields :: "HPyContext \<Rightarrow> ctx_ptr \<Rightarrow> HPyContext" where
  "trace_ctx_init_fields tctx u = tctx\<lparr>ctx_fields := Some u\<rparr>"

subsection \<open>Initialisation\<close>

text \<open>
  \<open>malloc\<close> is what the allocator returned: \<open>None\<close> for a null pointer, otherwise the
  fresh block with whatever it holds. \<open>getres\<close> is what the clock reported as its
  resolution (\<open>None\<close> when the unchecked call failed and wrote nothing).
\<close>

definition hpy_trace_ctx_init ::
  "bool \<Rightarrow> nat \<Rightarrow> HPyTraceInfo option \<Rightarrow> timespec option \<Rightarrow> HPyContext \<Rightarrow> ctx_ptr
     \<Rightarrow> int status \<times> HPyContext \<times> event list" where
  "hpy_trace_ctx_init ndebug nfunc malloc getres tctx u =
     (case get_info tctx of
        Some info0 \<Rightarrow>
          (if \<not> ndebug \<and> \<not> (uctx info0 = u) then (Faulted AssertionFailed, tctx, [])
           else (Returned 0, tctx, []))
      | None \<Rightarrow>
          (case malloc of
             None \<Rightarrow> (Returned (- 1), tctx, [HPyErr_NoMemory u])
           | Some blk \<Rightarrow>
               (let info1 = (case getres of None \<Rightarrow> blk
                             | Some r \<Rightarrow> blk\<lparr>counter_freq := r\<rparr>);
                    info2 = trace_ctx_init_info nfunc info1 u;
                    tctx1 = tctx\<lparr>ctx_private := Some info2\<rparr>
                in (Returned 0, trace_ctx_init_fields tctx1 u, []))))"

subsection \<open>Observer arguments\<close>

definition create_trace_func_args :: "env \<Rightarrow> ctx_ptr \<Rightarrow> int \<Rightarrow> HPy status \<times> event list" where
  "create_trace_func_args e u opid =
     (let h_name = unicode_result e (hpy_trace_get_func_name e opid);
          ev1 = [HPyUnicode_FromString u (hpy_trace_get_func_name e opid) h_name]
      in if HPy_IsNull h_name then
           (Fatal ''could not create arguments for user trace function'',
            ev1 @ [HPy_FatalError u ''could not create arguments for user trace function''])
         else
           (let h_args = tuple_result e [h_name];
                ev2 = ev1 @ [HPyTuple_FromArray u [h_name] h_args]
            in if HPy_IsNull h_args then
                 (Fatal ''could not create arguments for user trace function'',
                  ev2 @ [HPy_FatalError u ''could not create arguments for user trace function''])
               else (Returned h_args, ev2 @ [HPy_Close u h_name])))"

subsection \<open>The instrumentation protocol\<close>

text \<open>
  The result is the status, the trace context as the call left it, and the events of the
  call. On return the status carries the record that the returned pointer refers to. Where a
  call stops in a fault, the state given is the one before the statement that faults: a
  closing assertion of \<^verbatim>\<open>update_duration\<close> that fails finds the sums stored already.
\<close>

definition hpy_trace_on_enter ::
  "env \<Rightarrow> HPyContext \<Rightarrow> int \<Rightarrow> HPyTraceInfo status \<times> HPyContext \<times> event list" where
  "hpy_trace_on_enter e tctx opid =
     (case get_info tctx of
        None \<Rightarrow> (Faulted NullDereference, tctx, [])
      | Some tctx_info \<Rightarrow>
          (if \<not> (0 \<le> opid \<and> opid < int (length (call_counts tctx_info))) then
             (Faulted OutOfBounds, tctx, [])
           else
             (let u = uctx tctx_info;
                  info1 = tctx_info\<lparr>call_counts :=
                            (call_counts tctx_info)[nat opid := call_counts tctx_info ! nat opid + 1]\<rparr>;
                  tctx1 = tctx\<lparr>ctx_private := Some info1\<rparr>
              in if \<not> HPy_IsNull (on_enter_func info1) then
                   (case create_trace_func_args e u opid of
                      (Returned args, ev) \<Rightarrow>
                        (let res = call_result e info1 (on_enter_func info1) args HPy_NULL;
                             ev1 = ev @ [HPy_CallTupleDict u (on_enter_func info1) args HPy_NULL res,
                                         HPy_Close u args]
                         in if HPy_IsNull res then
                              (Fatal ''error when executing on-enter trace function'', tctx1,
                               ev1 @ [HPy_FatalError u
                                        ''error when executing on-enter trace function''])
                            else (Returned info1, tctx1, ev1))
                    | (Fatal m, ev) \<Rightarrow> (Fatal m, tctx1, ev)
                    | (Faulted f, ev) \<Rightarrow> (Faulted f, tctx1, ev))
                 else (Returned info1, tctx1, []))))"

definition hpy_trace_on_exit ::
  "bool \<Rightarrow> env \<Rightarrow> HPyTraceInfo \<Rightarrow> int \<Rightarrow> int \<Rightarrow> int \<Rightarrow> timespec \<Rightarrow> timespec
     \<Rightarrow> unit status \<times> HPyTraceInfo \<times> event list" where
  "hpy_trace_on_exit ndebug e info opid r0 r1 ts_start ts_end =
     (let u = uctx info
      in if \<not> in_int32 (r0 + r1) then (Faulted SignedOverflow, info, [])
         else if CLOCK_FAILED r0 r1 then
           (Fatal ''could not get monotonic clock123'', info,
            [printf (''Could not get monotonic clock in '' @ hpy_trace_get_func_name e opid
                       @ ''\<newline>''),
             fflush_stdout,
             HPy_FatalError u ''could not get monotonic clock123''])
         else if \<not> (0 \<le> opid \<and> opid < int (length (durations info))) then
           (Faulted OutOfBounds, info, [])
         else
           (case update_duration ndebug (durations info ! nat opid) ts_start ts_end of
              Inl f \<Rightarrow>
                (Faulted f,
                 info\<lparr>durations := (durations info)[nat opid :=
                    update_duration_stored ndebug (durations info ! nat opid) ts_start ts_end]\<rparr>,
                 [])
            | Inr d \<Rightarrow>
                (let info1 = info\<lparr>durations := (durations info)[nat opid := d]\<rparr>
                 in if \<not> HPy_IsNull (on_exit_func info1) then
                      (case create_trace_func_args e u opid of
                         (Returned args, ev) \<Rightarrow>
                           (let res = call_result e info1 (on_exit_func info1) args HPy_NULL;
                                ev1 = ev @ [HPy_CallTupleDict u (on_exit_func info1) args HPy_NULL res,
                                            HPy_Close u args]
                            in if HPy_IsNull res then
                                 (Fatal ''error when executing on-exit trace function'', info1,
                                  ev1 @ [HPy_FatalError u
                                           ''error when executing on-exit trace function''])
                               else (Returned (), info1, ev1))
                       | (Fatal m, ev) \<Rightarrow> (Fatal m, info1, ev)
                       | (Faulted f, ev) \<Rightarrow> (Faulted f, info1, ev))
                    else (Returned (), info1, []))))"

subsection \<open>Observations used by the properties\<close>

text \<open>Durations fed to the accumulator one after the other, each as a (start, end) pair.\<close>

fun accumulate :: "bool \<Rightarrow> timespec \<Rightarrow> (timespec \<times> timespec) list \<Rightarrow> fault + timespec" where
  "accumulate ndebug tot [] = Inr tot"
| "accumulate ndebug tot ((s, t) # ps) =
     (case update_duration ndebug tot s t of
        Inl f \<Rightarrow> Inl f
      | Inr tot1 \<Rightarrow> accumulate ndebug tot1 ps)"


text \<open>The counters of a trace context (none before it is initialised).\<close>

definition counters :: "HPyContext \<Rightarrow> 64 word list" where
  "counters tctx = (case get_info tctx of None \<Rightarrow> [] | Some info \<Rightarrow> call_counts info)"


text \<open>The observer invocations among the events of a call.\<close>

fun is_invocation :: "event \<Rightarrow> bool" where
  "is_invocation (HPy_CallTupleDict u f a k r) = True"
| "is_invocation ev = False"

definition invocations :: "event list \<Rightarrow> event list" where
  "invocations evs = filter is_invocation evs"

text \<open>
  The argument resources among the events of a call, a string or a tuple that was created,
  for which no release follows.
\<close>

fun unreleased_args :: "event list \<Rightarrow> HPy list" where
  "unreleased_args [] = []"
| "unreleased_args (HPyUnicode_FromString u s h # evs) =
     (if HPy_IsNull h \<or> HPy_Close u h \<in> set evs then [] else [h]) @ unreleased_args evs"
| "unreleased_args (HPyTuple_FromArray u hs h # evs) =
     (if HPy_IsNull h \<or> HPy_Close u h \<in> set evs then [] else [h]) @ unreleased_args evs"
| "unreleased_args (ev # evs) = unreleased_args evs"

subsection \<open>Concrete instances\<close>

text \<open>
  A catalog of three operations (alloc, free, call), environments in which every external
  operation succeeds or exactly one of them fails, and trace contexts for the underlying
  context at address 1: not yet initialised, freshly initialised, and with both observers
  installed.
\<close>

definition env_ok :: env where
  "env_ok = \<lparr>hpy_trace_get_func_name =
                (\<lambda>i. if i = 0 then ''alloc'' else if i = 1 then ''free'' else ''call''),
             unicode_result = (\<lambda>s. 11),
             tuple_result = (\<lambda>hs. 12),
             call_result = (\<lambda>s f a k. 13)\<rparr>"

definition env_observer_fails :: env where
  "env_observer_fails = env_ok\<lparr>call_result := (\<lambda>s f a k. 0)\<rparr>"

definition env_no_string :: env where
  "env_no_string = env_ok\<lparr>unicode_result := (\<lambda>s. 0)\<rparr>"

definition env_no_tuple :: env where
  "env_no_tuple = env_ok\<lparr>tuple_result := (\<lambda>hs. 0)\<rparr>"

definition info_fresh :: HPyTraceInfo where
  "info_fresh = \<lparr>uctx = 1, counter_freq = \<lparr>tv_sec = 0, tv_nsec = 1\<rparr>,
                 call_counts = [0, 0, 0], durations = [zero_time, zero_time, zero_time],
                 on_enter_func = 0, on_exit_func = 0\<rparr>"

definition info_observed :: HPyTraceInfo where
  "info_observed = info_fresh\<lparr>on_enter_func := 21, on_exit_func := 22\<rparr>"

definition tctx_empty :: HPyContext where
  "tctx_empty = \<lparr>ctx_private = None, ctx_fields = None\<rparr>"

definition tctx_fresh :: HPyContext where
  "tctx_fresh = \<lparr>ctx_private = Some info_fresh, ctx_fields = Some 1\<rparr>"

definition tctx_observed :: HPyContext where
  "tctx_observed = \<lparr>ctx_private = Some info_observed, ctx_fields = Some 1\<rparr>"

text \<open>
  A trace context in use: alloc has been entered twice and has taken 350ns, and both
  observers are installed.
\<close>

definition info_used :: HPyTraceInfo where
  "info_used = \<lparr>uctx = 1, counter_freq = \<lparr>tv_sec = 0, tv_nsec = 1\<rparr>,
                call_counts = [2, 0, 0],
                durations = [\<lparr>tv_sec = 0, tv_nsec = 350\<rparr>, zero_time, zero_time],
                on_enter_func = 21, on_exit_func = 22\<rparr>"

definition tctx_used :: HPyContext where
  "tctx_used = \<lparr>ctx_private = Some info_used, ctx_fields = Some 1\<rparr>"

section \<open>Properties\<close>

subsection \<open>Arithmetic of the duration accumulator\<close>

text \<open>
  For normalised time values the seconds and nanoseconds that \<^verbatim>\<open>update_duration\<close> adds are
  the quotient and the remainder of the elapsed nanoseconds.
\<close>

lemma split_nsec:
  fixes a b x y d :: int
  assumes "a * 1000000000 + x - (b * 1000000000 + y) = d"
    and "0 \<le> x" "x < 1000000000" "0 \<le> y" "y < 1000000000"
  shows "x < y \<Longrightarrow> a - b - 1 = d div 1000000000 \<and> x - y + 1000000000 = d mod 1000000000"
    and "\<not> x < y \<Longrightarrow> a - b = d div 1000000000 \<and> x - y = d mod 1000000000"
proof -
  assume lt: "x < y"
  have eq: "d = 1000000000 * (a - b - 1) + (x - y + 1000000000)"
    using assms(1) by (simp add: algebra_simps)
  have lo: "0 \<le> x - y + 1000000000" and hi: "x - y + 1000000000 < 1000000000"
    using lt assms by simp_all
  show "a - b - 1 = d div 1000000000 \<and> x - y + 1000000000 = d mod 1000000000"
    using int_div_pos_eq [OF eq lo hi] int_mod_pos_eq [OF eq lo hi] by simp
next
  assume ge: "\<not> x < y"
  have eq: "d = 1000000000 * (a - b) + (x - y)"
    using assms(1) by (simp add: algebra_simps)
  have lo: "0 \<le> x - y" and hi: "x - y < 1000000000"
    using ge assms by simp_all
  show "a - b = d div 1000000000 \<and> x - y = d mod 1000000000"
    using int_div_pos_eq [OF eq lo hi] int_mod_pos_eq [OF eq lo hi] by simp
qed

lemma update_duration_elapsed:
  assumes "normalized start" "normalized endt"
    and "to_nsec endt - to_nsec start = d" "0 \<le> d" "d div FREQ_NSEC < 2 ^ 62"
    and "0 \<le> tv_sec res" "tv_sec res < 2 ^ 62" "0 \<le> tv_nsec res" "tv_nsec res < 2 ^ 62"
  shows "update_duration ndebug res start endt =
           Inr \<lparr>tv_sec = tv_sec res + d div FREQ_NSEC, tv_nsec = tv_nsec res + d mod FREQ_NSEC\<rparr>"
proof -
  define q where "q = d div 1000000000"
  define r where "r = d mod 1000000000"
  have n: "0 \<le> tv_nsec endt" "tv_nsec endt < 1000000000"
      "0 \<le> tv_nsec start" "tv_nsec start < 1000000000"
    using assms(1,2) by (simp_all add: normalized_def FREQ_NSEC_def)
  have e: "tv_sec endt * 1000000000 + tv_nsec endt - (tv_sec start * 1000000000 + tv_nsec start) = d"
    using assms(3) by (simp add: to_nsec_def FREQ_NSEC_def)
  have q: "0 \<le> q" "q < 2 ^ 62"
    using assms(4,5) by (simp_all add: q_def FREQ_NSEC_def pos_imp_zdiv_nonneg_iff)
  have r: "0 \<le> r" "r < 1000000000" by (simp_all add: r_def)
  have goal: "?thesis \<longleftrightarrow> update_duration ndebug res start endt =
           Inr \<lparr>tv_sec = tv_sec res + q, tv_nsec = tv_nsec res + r\<rparr>"
    by (simp add: q_def r_def FREQ_NSEC_def)
  show ?thesis
  proof (cases "tv_nsec endt < tv_nsec start")
    case True
    have s: "tv_sec endt - tv_sec start - 1 = q \<and> tv_nsec endt - tv_nsec start + 1000000000 = r"
      unfolding q_def r_def by (rule split_nsec(1) [OF e n True])
    have s1: "tv_sec endt = tv_sec start + q + 1" using s by simp
    have s2: "tv_nsec endt = tv_nsec start + r - 1000000000" using s by simp
    show ?thesis
      unfolding goal using True q r assms(6-9)
      by (simp add: update_duration_def update_duration_values_def assert_result_def
          in_int64_def FREQ_NSEC_def s1 s2)
  next
    case False
    have s: "tv_sec endt - tv_sec start = q \<and> tv_nsec endt - tv_nsec start = r"
      unfolding q_def r_def by (rule split_nsec(2) [OF e n False])
    have s1: "tv_sec endt = tv_sec start + q" using s by simp
    have s2: "tv_nsec endt = tv_nsec start + r" using s by simp
    show ?thesis
      unfolding goal using False q r assms(6-9)
      by (simp add: update_duration_def update_duration_values_def assert_result_def
          in_int64_def FREQ_NSEC_def s1 s2)
  qed
qed

subsection \<open>Carry across accumulations\<close>

text \<open>
  C1, as stated: accumulating the durations (0s, 999999999ns) and (1s, 1ns) into a
  zero-initialised total gives (2s, 0ns). It does not: with both durations measured from
  time zero the total is (1s, 1000000000ns), not (2s, 0ns).
\<close>

theorem C1_counterexample:
  "accumulate False zero_time
     [(\<lparr>tv_sec = 0, tv_nsec = 0\<rparr>, \<lparr>tv_sec = 0, tv_nsec = 999999999\<rparr>),
      (\<lparr>tv_sec = 0, tv_nsec = 0\<rparr>, \<lparr>tv_sec = 1, tv_nsec = 1\<rparr>)]
     = Inr \<lparr>tv_sec = 1, tv_nsec = 1000000000\<rparr>
   \<and> accumulate False zero_time
     [(\<lparr>tv_sec = 0, tv_nsec = 0\<rparr>, \<lparr>tv_sec = 0, tv_nsec = 999999999\<rparr>),
      (\<lparr>tv_sec = 0, tv_nsec = 0\<rparr>, \<lparr>tv_sec = 1, tv_nsec = 1\<rparr>)]
     \<noteq> Inr \<lparr>tv_sec = 2, tv_nsec = 0\<rparr>"
  by (simp add: update_duration_def update_duration_values_def assert_result_def in_int64_def
      FREQ_NSEC_def zero_time_def)

text \<open>
  C1, amended: whatever normalised timestamps present the two durations (999999999 and
  1000000001 elapsed nanoseconds), accumulating them into a zero-initialised total gives
  (1s, 1000000000ns). The components are added separately and the nanoseconds of the total
  are not carried into its seconds; the total stands for 2000000000ns.
\<close>

theorem C1_accumulated_total:
  assumes "normalized s1" "normalized e1" "normalized s2" "normalized e2"
    and "to_nsec e1 - to_nsec s1 = 999999999"
    and "to_nsec e2 - to_nsec s2 = 1000000001"
  shows "accumulate ndebug zero_time [(s1, e1), (s2, e2)]
           = Inr \<lparr>tv_sec = 1, tv_nsec = 1000000000\<rparr>
         \<and> to_nsec \<lparr>tv_sec = 1, tv_nsec = 1000000000\<rparr> = 2000000000"
proof -
  have a: "update_duration ndebug zero_time s1 e1 = Inr \<lparr>tv_sec = 0, tv_nsec = 999999999\<rparr>"
    using update_duration_elapsed [OF assms(1,2,5), of zero_time ndebug]
    by (simp add: zero_time_def FREQ_NSEC_def)
  have b: "update_duration ndebug \<lparr>tv_sec = 0, tv_nsec = 999999999\<rparr> s2 e2
             = Inr \<lparr>tv_sec = 1, tv_nsec = 1000000000\<rparr>"
    using update_duration_elapsed [OF assms(3,4,6), of "\<lparr>tv_sec = 0, tv_nsec = 999999999\<rparr>" ndebug]
    by (simp add: FREQ_NSEC_def)
  show ?thesis by (simp add: a b to_nsec_def FREQ_NSEC_def)
qed

theorem C1_accumulated_total_witness:
  "accumulate True zero_time
     [(\<lparr>tv_sec = 5, tv_nsec = 500000000\<rparr>, \<lparr>tv_sec = 6, tv_nsec = 499999999\<rparr>),
      (\<lparr>tv_sec = 7, tv_nsec = 0\<rparr>, \<lparr>tv_sec = 8, tv_nsec = 1\<rparr>)]
     = Inr \<lparr>tv_sec = 1, tv_nsec = 1000000000\<rparr>
   \<and> to_nsec \<lparr>tv_sec = 1, tv_nsec = 1000000000\<rparr> = 2000000000"
  by (rule C1_accumulated_total) (simp_all add: normalized_def to_nsec_def FREQ_NSEC_def)

subsection \<open>Monotonic accumulation\<close>

text \<open>
  C2, as stated: for timestamps with end at or after start (and, in the borrow case, the
  seconds of end above those of start) no intermediate value of \<^verbatim>\<open>update_duration\<close> is
  negative. In the borrow case one is: the code computes \<^verbatim>\<open>end->tv_nsec - start->tv_nsec\<close>
  first and adds \<^verbatim>\<open>FREQ_NSEC\<close> to it afterwards. For start (0s, 999999999ns) and end
  (1s, 1ns) the fourth value computed is -999999998.
\<close>

theorem C2_counterexample:
  "normalized \<lparr>tv_sec = 0, tv_nsec = 999999999\<rparr>
   \<and> normalized \<lparr>tv_sec = 1, tv_nsec = 1\<rparr>
   \<and> time_le \<lparr>tv_sec = 0, tv_nsec = 999999999\<rparr> \<lparr>tv_sec = 1, tv_nsec = 1\<rparr>
   \<and> tv_sec \<lparr>tv_sec = 0, tv_nsec = 999999999\<rparr> < tv_sec \<lparr>tv_sec = 1, tv_nsec = 1\<rparr>
   \<and> update_duration_values zero_time \<lparr>tv_sec = 0, tv_nsec = 999999999\<rparr> \<lparr>tv_sec = 1, tv_nsec = 1\<rparr>
       = [1, 0, 0, - 999999998, 2, 2]
   \<and> update_duration False zero_time \<lparr>tv_sec = 0, tv_nsec = 999999999\<rparr> \<lparr>tv_sec = 1, tv_nsec = 1\<rparr>
       = Inr \<lparr>tv_sec = 0, tv_nsec = 2\<rparr>"
  by (simp add: update_duration_def update_duration_values_def assert_result_def in_int64_def
      FREQ_NSEC_def zero_time_def normalized_def time_le_def)

text \<open>
  C2, amended: for a total with non-negative components and normalised timestamps with end
  at or after start, in an execution without signed overflow, \<^verbatim>\<open>update_duration\<close> returns
  and leaves both components of the total at or above their values before the call. The
  only intermediate value that can be negative is the difference of the nanoseconds in the
  borrow case, taken before the full period is added.
\<close>

theorem C2_monotonic_accumulation:
  assumes "normalized start" "normalized endt" "time_le start endt"
    and "0 \<le> tv_sec res" "0 \<le> tv_nsec res"
    and "list_all in_int64 (update_duration_values res start endt)"
  shows "\<exists>res'. update_duration ndebug res start endt = Inr res'
           \<and> tv_sec res \<le> tv_sec res' \<and> tv_nsec res \<le> tv_nsec res'
           \<and> (\<forall>v \<in> set (update_duration_values res start endt).
                 v < 0 \<longrightarrow> tv_nsec endt < tv_nsec start \<and> v = tv_nsec endt - tv_nsec start)"
proof (cases "tv_nsec endt < tv_nsec start")
  case True
  then have gt: "tv_sec start < tv_sec endt"
    using assms(3) by (auto simp: time_le_def)
  have n: "tv_nsec start < 1000000000" "0 \<le> tv_nsec endt"
    using assms(1,2) by (simp_all add: normalized_def FREQ_NSEC_def)
  show ?thesis
    using True gt n assms(4,5,6)
    by (simp add: update_duration_def update_duration_values_def assert_result_def FREQ_NSEC_def)
next
  case False
  then have ge: "tv_sec start \<le> tv_sec endt"
    using assms(3) by (auto simp: time_le_def)
  show ?thesis
    using False ge assms(4,5,6)
    by (simp add: update_duration_def update_duration_values_def assert_result_def FREQ_NSEC_def)
qed

theorem C2_monotonic_accumulation_witness:
  "\<exists>res'. update_duration False \<lparr>tv_sec = 3, tv_nsec = 7\<rparr>
              \<lparr>tv_sec = 0, tv_nsec = 999999999\<rparr> \<lparr>tv_sec = 1, tv_nsec = 1\<rparr> = Inr res'
           \<and> tv_sec \<lparr>tv_sec = 3, tv_nsec = 7\<rparr> \<le> tv_sec res'
           \<and> tv_nsec \<lparr>tv_sec = 3, tv_nsec = 7\<rparr> \<le> tv_nsec res'"
  using C2_monotonic_accumulation [of "\<lparr>tv_sec = 0, tv_nsec = 999999999\<rparr>"
      "\<lparr>tv_sec = 1, tv_nsec = 1\<rparr>" "\<lparr>tv_sec = 3, tv_nsec = 7\<rparr>" False]
  by (simp add: normalized_def time_le_def update_duration_values_def in_int64_def FREQ_NSEC_def)

subsection \<open>What a call does when the observer is invoked\<close>

text \<open>The definitions of the concrete instances, for evaluating runs.\<close>

lemmas fixture_defs = env_ok_def env_observer_fails_def env_no_string_def env_no_tuple_def
  info_fresh_def info_observed_def tctx_empty_def tctx_fresh_def tctx_observed_def
  info_used_def tctx_used_def

text \<open>
  The duration that a call of \<^verbatim>\<open>update_duration\<close> stores differs from the one before by
  exactly the nanoseconds elapsed from start to end, in both branches.
\<close>

lemma to_nsec_update_duration:
  assumes "update_duration ndebug res start endt = Inr d"
  shows "to_nsec d = to_nsec res + (to_nsec endt - to_nsec start)"
  using assms
  by (auto simp: update_duration_def assert_result_def to_nsec_def FREQ_NSEC_def algebra_simps
      split: if_splits)

text \<open>
  If the events of on-exit, or of on-enter, contain an invocation of the observer, then the
  call went through every earlier step: this fixes the state in which it ends, the
  arguments of the invocation, and how the call ends.
\<close>

lemma on_exit_invoked:
  assumes "hpy_trace_on_exit ndebug e info opid r0 r1 ts_start ts_end = (st, info', evs)"
    and "HPy_CallTupleDict u f a k r \<in> set evs"
  shows "\<exists>d. update_duration ndebug (durations info ! nat opid) ts_start ts_end = Inr d
           \<and> 0 \<le> opid \<and> nat opid < length (durations info)
           \<and> info' = info\<lparr>durations := (durations info)[nat opid := d]\<rparr>
           \<and> u = uctx info \<and> f = on_exit_func info \<and> k = HPy_NULL
           \<and> a = tuple_result e [unicode_result e (hpy_trace_get_func_name e opid)]
           \<and> r = call_result e info' f a k
           \<and> invocations evs = [HPy_CallTupleDict u f a k r]
           \<and> (if HPy_IsNull r
               then st = Fatal ''error when executing on-exit trace function''
                  \<and> last evs = HPy_FatalError u ''error when executing on-exit trace function''
               else st = Returned ())"
  using assms
  unfolding hpy_trace_on_exit_def create_trace_func_args_def Let_def invocations_def
  by (auto split: if_splits sum.splits)

lemma on_enter_invoked:
  assumes "hpy_trace_on_enter e tctx opid = (st, tctx', evs)"
    and "HPy_CallTupleDict u f a k r \<in> set evs"
  shows "\<exists>info. get_info tctx = Some info
           \<and> 0 \<le> opid \<and> nat opid < length (call_counts info)
           \<and> u = uctx info \<and> f = on_enter_func info \<and> k = HPy_NULL
           \<and> a = tuple_result e [unicode_result e (hpy_trace_get_func_name e opid)]
           \<and> r = call_result e (info\<lparr>call_counts :=
                            (call_counts info)[nat opid := call_counts info ! nat opid + 1]\<rparr>) f a k
           \<and> invocations evs = [HPy_CallTupleDict u f a k r]
           \<and> (if HPy_IsNull r
               then st = Fatal ''error when executing on-enter trace function''
                  \<and> last evs = HPy_FatalError u ''error when executing on-enter trace function''
               else st = Returned (info\<lparr>call_counts :=
                            (call_counts info)[nat opid := call_counts info ! nat opid + 1]\<rparr>))"
  using assms
  unfolding hpy_trace_on_enter_def create_trace_func_args_def Let_def invocations_def
  by (auto split: if_splits option.splits)

text \<open>Two runs in which the observer returns a null handle.\<close>

lemma on_enter_observer_fails:
  "hpy_trace_on_enter env_observer_fails tctx_observed 0 =
     (Fatal ''error when executing on-enter trace function'',
      tctx_observed\<lparr>ctx_private := Some (info_observed\<lparr>call_counts := [1, 0, 0]\<rparr>)\<rparr>,
      [HPyUnicode_FromString 1 ''alloc'' 11, HPyTuple_FromArray 1 [11] 12, HPy_Close 1 11,
       HPy_CallTupleDict 1 21 12 0 0, HPy_Close 1 12,
       HPy_FatalError 1 ''error when executing on-enter trace function''])"
  by (simp add: hpy_trace_on_enter_def create_trace_func_args_def get_info_def HPy_IsNull_def
      HPy_NULL_def fixture_defs)

lemma on_exit_observer_fails:
  "hpy_trace_on_exit False env_observer_fails info_observed 0 0 0
       \<lparr>tv_sec = 0, tv_nsec = 999999999\<rparr> \<lparr>tv_sec = 1, tv_nsec = 1\<rparr> =
     (Fatal ''error when executing on-exit trace function'',
      info_observed\<lparr>durations := [\<lparr>tv_sec = 0, tv_nsec = 2\<rparr>, zero_time, zero_time]\<rparr>,
      [HPyUnicode_FromString 1 ''alloc'' 11, HPyTuple_FromArray 1 [11] 12, HPy_Close 1 11,
       HPy_CallTupleDict 1 22 12 0 0, HPy_Close 1 12,
       HPy_FatalError 1 ''error when executing on-exit trace function''])"
  by (simp add: hpy_trace_on_exit_def create_trace_func_args_def HPy_IsNull_def
      HPy_NULL_def fixture_defs in_int32_def CLOCK_FAILED_def update_duration_def
      update_duration_values_def assert_result_def in_int64_def FREQ_NSEC_def zero_time_def)

subsection \<open>Clock failure\<close>

text \<open>
  C3, as stated: when a clock read failed, the report made through the fatal-error channel
  of the underlying context names the failing operation. It does not: the operation is
  named in a line written to \<^verbatim>\<open>stdout\<close>, and the message given to \<^verbatim>\<open>HPy_FatalError\<close> is
  the same fixed text for the operations alloc and free.
\<close>

theorem C3_counterexample:
  "hpy_trace_get_func_name env_ok 0 = ''alloc''
   \<and> hpy_trace_get_func_name env_ok 1 = ''free''
   \<and> hpy_trace_on_exit False env_ok info_observed 0 (clock_status ClockError) (clock_status ClockOk)
       \<lparr>tv_sec = 0, tv_nsec = 999999999\<rparr> \<lparr>tv_sec = 1, tv_nsec = 1\<rparr> =
     (Fatal ''could not get monotonic clock123'', info_observed,
      [printf ''Could not get monotonic clock in alloc\<newline>'',
       fflush_stdout,
       HPy_FatalError 1 ''could not get monotonic clock123''])
   \<and> hpy_trace_on_exit False env_ok info_observed 1 (clock_status ClockError) (clock_status ClockOk)
       \<lparr>tv_sec = 0, tv_nsec = 999999999\<rparr> \<lparr>tv_sec = 1, tv_nsec = 1\<rparr> =
     (Fatal ''could not get monotonic clock123'', info_observed,
      [printf ''Could not get monotonic clock in free\<newline>'',
       fflush_stdout,
       HPy_FatalError 1 ''could not get monotonic clock123''])"
  by (simp add: hpy_trace_on_exit_def clock_status_def in_int32_def CLOCK_FAILED_def fixture_defs)

text \<open>
  C3, amended: whenever either of the two clock reads failed, on-exit writes a line that
  names the operation to \<^verbatim>\<open>stdout\<close>, then takes the fatal-error path of the underlying
  context with the fixed message, and leaves the trace record, and so \<open>durations\<close>, as it
  was: the accumulation does not run.
\<close>

theorem C3_clock_failure_is_fatal:
  assumes "c0 = ClockError \<or> c1 = ClockError"
  shows "hpy_trace_on_exit ndebug e info opid (clock_status c0) (clock_status c1) ts_start ts_end =
           (Fatal ''could not get monotonic clock123'', info,
            [printf (''Could not get monotonic clock in '' @ hpy_trace_get_func_name e opid
                       @ ''\<newline>''),
             fflush_stdout,
             HPy_FatalError (uctx info) ''could not get monotonic clock123''])"
  using assms
  by (cases c0; cases c1)
     (simp_all add: hpy_trace_on_exit_def clock_status_def in_int32_def CLOCK_FAILED_def)

text \<open>C3, amended, at the alloc operation, the second clock read having failed.\<close>

theorem C3_clock_failure_is_fatal_witness:
  "hpy_trace_on_exit False env_ok info_observed 0 (clock_status ClockOk) (clock_status ClockError)
     \<lparr>tv_sec = 0, tv_nsec = 999999999\<rparr> \<lparr>tv_sec = 1, tv_nsec = 1\<rparr> =
     (Fatal ''could not get monotonic clock123'', info_observed,
      [printf ''Could not get monotonic clock in alloc\<newline>'',
       fflush_stdout,
       HPy_FatalError 1 ''could not get monotonic clock123''])
   \<and> durations info_observed = [zero_time, zero_time, zero_time]"
  using C3_clock_failure_is_fatal [of ClockOk ClockError False env_ok info_observed 0
      "\<lparr>tv_sec = 0, tv_nsec = 999999999\<rparr>" "\<lparr>tv_sec = 1, tv_nsec = 1\<rparr>"]
  by (simp add: fixture_defs)

subsection \<open>Observer failure\<close>

text \<open>
  C7: whenever an invocation of the observer returned a null handle, in on-enter or in
  on-exit, the call ends on the fatal-error path of the underlying context, the fatal
  error is the last thing it does, the observer has been invoked exactly once, and the
  message tells enter from exit.
\<close>

theorem C7_observer_failure_is_fatal:
  "(hpy_trace_on_enter e tctx opid = (st, tctx', evs)
      \<and> HPy_CallTupleDict u f a k HPy_NULL \<in> set evs
    \<longrightarrow> st = Fatal ''error when executing on-enter trace function''
        \<and> last evs = HPy_FatalError u ''error when executing on-enter trace function''
        \<and> Some u = map_option uctx (get_info tctx)
        \<and> invocations evs = [HPy_CallTupleDict u f a k HPy_NULL])
   \<and> (hpy_trace_on_exit ndebug e info opid r0 r1 ts_start ts_end = (st2, info', evs2)
      \<and> HPy_CallTupleDict u2 f2 a2 k2 HPy_NULL \<in> set evs2
    \<longrightarrow> st2 = Fatal ''error when executing on-exit trace function''
        \<and> last evs2 = HPy_FatalError u2 ''error when executing on-exit trace function''
        \<and> u2 = uctx info
        \<and> invocations evs2 = [HPy_CallTupleDict u2 f2 a2 k2 HPy_NULL])
   \<and> ''error when executing on-enter trace function''
       \<noteq> ''error when executing on-exit trace function''"
proof (intro conjI impI)
  assume h: "hpy_trace_on_enter e tctx opid = (st, tctx', evs)
      \<and> HPy_CallTupleDict u f a k HPy_NULL \<in> set evs"
  from on_enter_invoked [of e tctx opid st tctx' evs u f a k HPy_NULL] h
  obtain info where i: "get_info tctx = Some info" "u = uctx info"
      "invocations evs = [HPy_CallTupleDict u f a k HPy_NULL]"
      "st = Fatal ''error when executing on-enter trace function''"
      "last evs = HPy_FatalError u ''error when executing on-enter trace function''"
    by (auto simp: HPy_IsNull_def HPy_NULL_def)
  show "st = Fatal ''error when executing on-enter trace function''" by (rule i(4))
  show "last evs = HPy_FatalError u ''error when executing on-enter trace function''" by (rule i(5))
  show "Some u = map_option uctx (get_info tctx)" using i(1,2) by simp
  show "invocations evs = [HPy_CallTupleDict u f a k HPy_NULL]" by (rule i(3))
next
  assume h: "hpy_trace_on_exit ndebug e info opid r0 r1 ts_start ts_end = (st2, info', evs2)
      \<and> HPy_CallTupleDict u2 f2 a2 k2 HPy_NULL \<in> set evs2"
  from on_exit_invoked [of ndebug e info opid r0 r1 ts_start ts_end st2 info' evs2 u2 f2 a2 k2 HPy_NULL] h
  have i: "u2 = uctx info"
      "invocations evs2 = [HPy_CallTupleDict u2 f2 a2 k2 HPy_NULL]"
      "st2 = Fatal ''error when executing on-exit trace function''"
      "last evs2 = HPy_FatalError u2 ''error when executing on-exit trace function''"
    by (auto simp: HPy_IsNull_def HPy_NULL_def)
  show "st2 = Fatal ''error when executing on-exit trace function''" by (rule i(3))
  show "last evs2 = HPy_FatalError u2 ''error when executing on-exit trace function''" by (rule i(4))
  show "u2 = uctx info" by (rule i(1))
  show "invocations evs2 = [HPy_CallTupleDict u2 f2 a2 k2 HPy_NULL]" by (rule i(2))
next
  show "''error when executing on-enter trace function''
       \<noteq> ''error when executing on-exit trace function''" by simp
qed

text \<open>C7 at the two runs above.\<close>

theorem C7_observer_failure_is_fatal_witness:
  "fst (hpy_trace_on_enter env_observer_fails tctx_observed 0)
     = Fatal ''error when executing on-enter trace function''
   \<and> fst (hpy_trace_on_exit False env_observer_fails info_observed 0 0 0
       \<lparr>tv_sec = 0, tv_nsec = 999999999\<rparr> \<lparr>tv_sec = 1, tv_nsec = 1\<rparr>)
     = Fatal ''error when executing on-exit trace function''"
  using C7_observer_failure_is_fatal [of env_observer_fails tctx_observed 0
      "Fatal ''error when executing on-enter trace function''"
      "tctx_observed\<lparr>ctx_private := Some (info_observed\<lparr>call_counts := [1, 0, 0]\<rparr>)\<rparr>"
      "[HPyUnicode_FromString 1 ''alloc'' 11, HPyTuple_FromArray 1 [11] 12, HPy_Close 1 11,
       HPy_CallTupleDict 1 21 12 0 0, HPy_Close 1 12,
       HPy_FatalError 1 ''error when executing on-enter trace function'']"
      1 21 12 0
      False info_observed 0 0 "\<lparr>tv_sec = 0, tv_nsec = 999999999\<rparr>" "\<lparr>tv_sec = 1, tv_nsec = 1\<rparr>"
      "Fatal ''error when executing on-exit trace function''"
      "info_observed\<lparr>durations := [\<lparr>tv_sec = 0, tv_nsec = 2\<rparr>, zero_time, zero_time]\<rparr>"
      "[HPyUnicode_FromString 1 ''alloc'' 11, HPyTuple_FromArray 1 [11] 12, HPy_Close 1 11,
       HPy_CallTupleDict 1 22 12 0 0, HPy_Close 1 12,
       HPy_FatalError 1 ''error when executing on-exit trace function'']"
      1 22 12 0]
  by (simp add: on_enter_observer_fails on_exit_observer_fails HPy_NULL_def)

subsection \<open>Accumulation comes before the on-exit observer\<close>

text \<open>
  C10: with both clock reads successful, in every execution of on-exit in which the
  observer is invoked, the duration of the operation is the one \<^verbatim>\<open>update_duration\<close>
  computed, the old duration plus the nanoseconds elapsed from start to end, both in the
  trace record as the observer finds it when it is invoked and in the state the call ends
  in; when the observer returned a null handle, the call ends on the fatal-error path with
  the duration so accumulated.
\<close>

theorem C10_accumulated_before_observer:
  assumes "hpy_trace_on_exit ndebug e info opid (clock_status ClockOk) (clock_status ClockOk)
             ts_start ts_end = (st, info', evs)"
    and "HPy_CallTupleDict u f a k r \<in> set evs"
  shows "\<exists>d. update_duration ndebug (durations info ! nat opid) ts_start ts_end = Inr d
           \<and> durations info' = (durations info)[nat opid := d]
           \<and> durations info' ! nat opid = d
           \<and> r = call_result e (info\<lparr>durations := (durations info)[nat opid := d]\<rparr>) f a k
           \<and> to_nsec (durations info' ! nat opid)
               = to_nsec (durations info ! nat opid) + (to_nsec ts_end - to_nsec ts_start)
           \<and> (HPy_IsNull r \<longrightarrow>
                 st = Fatal ''error when executing on-exit trace function''
                 \<and> last evs = HPy_FatalError (uctx info)
                                ''error when executing on-exit trace function'')"
proof -
  from on_exit_invoked [OF assms]
  obtain d where d: "update_duration ndebug (durations info ! nat opid) ts_start ts_end = Inr d"
      "nat opid < length (durations info)"
      "info' = info\<lparr>durations := (durations info)[nat opid := d]\<rparr>"
      "u = uctx info"
      "r = call_result e info' f a k"
      "if HPy_IsNull r
       then st = Fatal ''error when executing on-exit trace function''
          \<and> last evs = HPy_FatalError u ''error when executing on-exit trace function''
       else st = Returned ()"
    by blast
  have "durations info' ! nat opid = d" using d(2,3) by simp
  moreover have "to_nsec d = to_nsec (durations info ! nat opid) + (to_nsec ts_end - to_nsec ts_start)"
    by (rule to_nsec_update_duration [OF d(1)])
  ultimately show ?thesis using d by auto
qed

text \<open>C10 at the run of on-exit above, in which the observer fails.\<close>

theorem C10_accumulated_before_observer_witness:
  "hpy_trace_on_exit False env_observer_fails info_observed 0
       (clock_status ClockOk) (clock_status ClockOk)
       \<lparr>tv_sec = 0, tv_nsec = 999999999\<rparr> \<lparr>tv_sec = 1, tv_nsec = 1\<rparr> =
     (Fatal ''error when executing on-exit trace function'',
      info_observed\<lparr>durations := [\<lparr>tv_sec = 0, tv_nsec = 2\<rparr>, zero_time, zero_time]\<rparr>,
      [HPyUnicode_FromString 1 ''alloc'' 11, HPyTuple_FromArray 1 [11] 12, HPy_Close 1 11,
       HPy_CallTupleDict 1 22 12 0 0, HPy_Close 1 12,
       HPy_FatalError 1 ''error when executing on-exit trace function''])
   \<and> durations info_observed ! 0 = \<lparr>tv_sec = 0, tv_nsec = 0\<rparr>
   \<and> to_nsec \<lparr>tv_sec = 1, tv_nsec = 1\<rparr> - to_nsec \<lparr>tv_sec = 0, tv_nsec = 999999999\<rparr> = 2"
proof -
  have run: "hpy_trace_on_exit False env_observer_fails info_observed 0
       (clock_status ClockOk) (clock_status ClockOk)
       \<lparr>tv_sec = 0, tv_nsec = 999999999\<rparr> \<lparr>tv_sec = 1, tv_nsec = 1\<rparr> =
     (Fatal ''error when executing on-exit trace function'',
      info_observed\<lparr>durations := [\<lparr>tv_sec = 0, tv_nsec = 2\<rparr>, zero_time, zero_time]\<rparr>,
      [HPyUnicode_FromString 1 ''alloc'' 11, HPyTuple_FromArray 1 [11] 12, HPy_Close 1 11,
       HPy_CallTupleDict 1 22 12 0 0, HPy_Close 1 12,
       HPy_FatalError 1 ''error when executing on-exit trace function''])"
    by (simp add: clock_status_def on_exit_observer_fails)
  have inv: "HPy_CallTupleDict 1 22 12 0 0 \<in> set
      [HPyUnicode_FromString 1 ''alloc'' 11, HPyTuple_FromArray 1 [11] 12, HPy_Close 1 11,
       HPy_CallTupleDict 1 22 12 0 0, HPy_Close 1 12,
       HPy_FatalError 1 ''error when executing on-exit trace function'']"
    by simp
  have rest: "durations info_observed ! 0 = \<lparr>tv_sec = 0, tv_nsec = 0\<rparr>
      \<and> to_nsec \<lparr>tv_sec = 1, tv_nsec = 1\<rparr> - to_nsec \<lparr>tv_sec = 0, tv_nsec = 999999999\<rparr> = 2"
    by (simp add: info_observed_def info_fresh_def zero_time_def to_nsec_def FREQ_NSEC_def)
  show ?thesis
    using C10_accumulated_before_observer [OF run inv] run rest by simp
qed

subsection \<open>Initialisation\<close>

text \<open>
  C8: when the trace context is not yet initialised and the allocation of the trace record
  fails, initialisation reports out-of-memory on the underlying context (and does nothing
  else there), returns -1, and leaves the trace context, its private slot included, as it
  was.
\<close>

theorem C8_allocation_failure:
  assumes "get_info tctx = None"
  shows "hpy_trace_ctx_init ndebug nfunc None getres tctx u
           = (Returned (- 1), tctx, [HPyErr_NoMemory u])"
  using assms by (simp add: hpy_trace_ctx_init_def)

text \<open>C8 at the empty trace context.\<close>

theorem C8_allocation_failure_witness:
  "hpy_trace_ctx_init False 3 None (Some \<lparr>tv_sec = 0, tv_nsec = 1\<rparr>) tctx_empty 1
     = (Returned (- 1), tctx_empty, [HPyErr_NoMemory 1])
   \<and> ctx_private tctx_empty = None"
  using C8_allocation_failure [of tctx_empty False 3 "Some \<lparr>tv_sec = 0, tv_nsec = 1\<rparr>" 1]
  by (simp add: get_info_def tctx_empty_def)

text \<open>
  C5: on a trace context that is initialised for the underlying context given, initialise
  returns success, allocates nothing, calls nothing, and leaves the trace context, counters
  and durations included, exactly as it was, whatever they hold. So when a first call has
  installed the trace record (its allocation succeeding), a second call with the same
  underlying context is a no-op and the result is success both times.
\<close>

theorem C5_second_initialize_is_noop:
  "(get_info tctx = Some info \<and> uctx info = u
      \<longrightarrow> hpy_trace_ctx_init ndebug nfunc malloc getres tctx u = (Returned 0, tctx, []))
   \<and> (get_info tctx0 = None
      \<longrightarrow> (\<exists>tctx1 info1.
             hpy_trace_ctx_init ndebug nfunc (Some blk) getres0 tctx0 u = (Returned 0, tctx1, [])
             \<and> get_info tctx1 = Some info1 \<and> uctx info1 = u
             \<and> hpy_trace_ctx_init ndebug nfunc malloc getres tctx1 u = (Returned 0, tctx1, [])))"
  by (simp add: hpy_trace_ctx_init_def get_info_def trace_ctx_init_info_def
      trace_ctx_init_fields_def Let_def)

text \<open>
  C5 at the trace context in use (counters and durations not zero), and at the empty trace
  context, where the first call installs the record and the second changes nothing.
\<close>

theorem C5_second_initialize_is_noop_witness:
  "hpy_trace_ctx_init False 3 (Some info_fresh) (Some \<lparr>tv_sec = 0, tv_nsec = 9\<rparr>) tctx_used 1
     = (Returned 0, tctx_used, [])
   \<and> counters tctx_used = [2, 0, 0]
   \<and> map_option durations (get_info tctx_used)
       = Some [\<lparr>tv_sec = 0, tv_nsec = 350\<rparr>, zero_time, zero_time]
   \<and> hpy_trace_ctx_init False 3 (Some info_observed) (Some \<lparr>tv_sec = 0, tv_nsec = 1\<rparr>) tctx_empty 1
       = (Returned 0, tctx_fresh, [])
   \<and> hpy_trace_ctx_init False 3 (Some info_fresh) (Some \<lparr>tv_sec = 0, tv_nsec = 9\<rparr>) tctx_fresh 1
       = (Returned 0, tctx_fresh, [])"
proof -
  have used: "get_info tctx_used = Some info_used \<and> uctx info_used = 1"
    by (simp add: get_info_def fixture_defs)
  have fresh: "get_info tctx_fresh = Some info_fresh \<and> uctx info_fresh = 1"
    by (simp add: get_info_def fixture_defs)
  have first: "hpy_trace_ctx_init False 3 (Some info_observed)
      (Some \<lparr>tv_sec = 0, tv_nsec = 1\<rparr>) tctx_empty 1 = (Returned 0, tctx_fresh, [])"
    by (simp add: hpy_trace_ctx_init_def get_info_def trace_ctx_init_info_def
        trace_ctx_init_fields_def HPy_NULL_def numeral_3_eq_3 fixture_defs)
  have vals: "counters tctx_used = [2, 0, 0]
      \<and> map_option durations (get_info tctx_used)
          = Some [\<lparr>tv_sec = 0, tv_nsec = 350\<rparr>, zero_time, zero_time]"
    by (simp add: counters_def get_info_def fixture_defs)
  show ?thesis
    using C5_second_initialize_is_noop [of tctx_used info_used 1 False 3 "Some info_fresh"
        "Some \<lparr>tv_sec = 0, tv_nsec = 9\<rparr>"]
      C5_second_initialize_is_noop [of tctx_fresh info_fresh 1 False 3 "Some info_fresh"
        "Some \<lparr>tv_sec = 0, tv_nsec = 9\<rparr>"]
      used fresh first vals
    by simp
qed

subsection \<open>The events of on-enter\<close>

text \<open>
  For an initialised trace context and a valid operation id, on-enter increments the
  counter and then takes one of five paths: no observer; the name string cannot be
  created; the tuple cannot be created; the observer returns a null handle; the observer
  returns a result.
\<close>

lemma on_enter_result:
  fixes e :: env
  assumes "get_info tctx = Some info" "0 \<le> opid" "opid < int (length (call_counts info))"
  defines "u \<equiv> uctx info"
    and "f \<equiv> on_enter_func info"
    and "name \<equiv> hpy_trace_get_func_name e opid"
    and "h_name \<equiv> unicode_result e (hpy_trace_get_func_name e opid)"
    and "h_args \<equiv> tuple_result e [unicode_result e (hpy_trace_get_func_name e opid)]"
    and "info1 \<equiv> info\<lparr>call_counts :=
                    (call_counts info)[nat opid := call_counts info ! nat opid + 1]\<rparr>"
    and "r \<equiv> call_result e
               (info\<lparr>call_counts :=
                  (call_counts info)[nat opid := call_counts info ! nat opid + 1]\<rparr>)
               (on_enter_func info)
               (tuple_result e [unicode_result e (hpy_trace_get_func_name e opid)]) HPy_NULL"
  shows "hpy_trace_on_enter e tctx opid =
    (if HPy_IsNull f then (Returned info1, tctx\<lparr>ctx_private := Some info1\<rparr>, [])
     else if HPy_IsNull h_name then
       (Fatal ''could not create arguments for user trace function'',
        tctx\<lparr>ctx_private := Some info1\<rparr>,
        [HPyUnicode_FromString u name h_name,
         HPy_FatalError u ''could not create arguments for user trace function''])
     else if HPy_IsNull h_args then
       (Fatal ''could not create arguments for user trace function'',
        tctx\<lparr>ctx_private := Some info1\<rparr>,
        [HPyUnicode_FromString u name h_name, HPyTuple_FromArray u [h_name] h_args,
         HPy_FatalError u ''could not create arguments for user trace function''])
     else if HPy_IsNull r then
       (Fatal ''error when executing on-enter trace function'',
        tctx\<lparr>ctx_private := Some info1\<rparr>,
        [HPyUnicode_FromString u name h_name, HPyTuple_FromArray u [h_name] h_args,
         HPy_Close u h_name, HPy_CallTupleDict u f h_args HPy_NULL r, HPy_Close u h_args,
         HPy_FatalError u ''error when executing on-enter trace function''])
     else
       (Returned info1, tctx\<lparr>ctx_private := Some info1\<rparr>,
        [HPyUnicode_FromString u name h_name, HPyTuple_FromArray u [h_name] h_args,
         HPy_Close u h_name, HPy_CallTupleDict u f h_args HPy_NULL r, HPy_Close u h_args]))"
  using assms(1-3)
  unfolding hpy_trace_on_enter_def create_trace_func_args_def Let_def u_def f_def name_def
    h_name_def h_args_def r_def info1_def
  by simp

text \<open>The trace context with observers is initialised, and 0 is a valid operation id.\<close>

lemma tctx_observed_valid:
  "get_info tctx_observed = Some info_observed"
  "(0::int) \<le> 0"
  "0 < int (length (call_counts info_observed))"
  by (simp_all add: get_info_def fixture_defs)

text \<open>A run of on-enter in which every external operation succeeds.\<close>

lemma on_enter_ok:
  "hpy_trace_on_enter env_ok tctx_observed 0 =
     (Returned (info_observed\<lparr>call_counts := [1, 0, 0]\<rparr>),
      tctx_observed\<lparr>ctx_private := Some (info_observed\<lparr>call_counts := [1, 0, 0]\<rparr>)\<rparr>,
      [HPyUnicode_FromString 1 ''alloc'' 11, HPyTuple_FromArray 1 [11] 12, HPy_Close 1 11,
       HPy_CallTupleDict 1 21 12 0 13, HPy_Close 1 12])"
  by (simp add: hpy_trace_on_enter_def create_trace_func_args_def get_info_def HPy_IsNull_def
      HPy_NULL_def Let_def fixture_defs)

text \<open>Runs of on-enter in which the name string, or the tuple, cannot be created.\<close>

lemma on_enter_no_string:
  "hpy_trace_on_enter env_no_string tctx_observed 0 =
     (Fatal ''could not create arguments for user trace function'',
      tctx_observed\<lparr>ctx_private := Some (info_observed\<lparr>call_counts := [1, 0, 0]\<rparr>)\<rparr>,
      [HPyUnicode_FromString 1 ''alloc'' 0,
       HPy_FatalError 1 ''could not create arguments for user trace function''])"
  by (simp add: hpy_trace_on_enter_def create_trace_func_args_def get_info_def HPy_IsNull_def
      HPy_NULL_def Let_def fixture_defs)

lemma on_enter_no_tuple:
  "hpy_trace_on_enter env_no_tuple tctx_observed 0 =
     (Fatal ''could not create arguments for user trace function'',
      tctx_observed\<lparr>ctx_private := Some (info_observed\<lparr>call_counts := [1, 0, 0]\<rparr>)\<rparr>,
      [HPyUnicode_FromString 1 ''alloc'' 11, HPyTuple_FromArray 1 [11] 0,
       HPy_FatalError 1 ''could not create arguments for user trace function''])"
  by (simp add: hpy_trace_on_enter_def create_trace_func_args_def get_info_def HPy_IsNull_def
      HPy_NULL_def Let_def fixture_defs)

subsection \<open>The events of on-exit\<close>

text \<open>
  With both clock reads successful, a valid operation id and the accumulation returning,
  on-exit stores the accumulated duration and then takes one of the same five paths.
\<close>

lemma on_exit_result:
  fixes e :: env
  assumes "0 \<le> opid" "opid < int (length (durations info))"
    and "update_duration ndebug (durations info ! nat opid) ts_start ts_end = Inr d"
  defines "u \<equiv> uctx info"
    and "f \<equiv> on_exit_func info"
    and "name \<equiv> hpy_trace_get_func_name e opid"
    and "h_name \<equiv> unicode_result e (hpy_trace_get_func_name e opid)"
    and "h_args \<equiv> tuple_result e [unicode_result e (hpy_trace_get_func_name e opid)]"
    and "info1 \<equiv> info\<lparr>durations := (durations info)[nat opid := d]\<rparr>"
    and "r \<equiv> call_result e (info\<lparr>durations := (durations info)[nat opid := d]\<rparr>)
               (on_exit_func info)
               (tuple_result e [unicode_result e (hpy_trace_get_func_name e opid)]) HPy_NULL"
  shows "hpy_trace_on_exit ndebug e info opid (clock_status ClockOk) (clock_status ClockOk)
           ts_start ts_end =
    (if HPy_IsNull f then (Returned (), info1, [])
     else if HPy_IsNull h_name then
       (Fatal ''could not create arguments for user trace function'', info1,
        [HPyUnicode_FromString u name h_name,
         HPy_FatalError u ''could not create arguments for user trace function''])
     else if HPy_IsNull h_args then
       (Fatal ''could not create arguments for user trace function'', info1,
        [HPyUnicode_FromString u name h_name, HPyTuple_FromArray u [h_name] h_args,
         HPy_FatalError u ''could not create arguments for user trace function''])
     else if HPy_IsNull r then
       (Fatal ''error when executing on-exit trace function'', info1,
        [HPyUnicode_FromString u name h_name, HPyTuple_FromArray u [h_name] h_args,
         HPy_Close u h_name, HPy_CallTupleDict u f h_args HPy_NULL r, HPy_Close u h_args,
         HPy_FatalError u ''error when executing on-exit trace function''])
     else
       (Returned (), info1,
        [HPyUnicode_FromString u name h_name, HPyTuple_FromArray u [h_name] h_args,
         HPy_Close u h_name, HPy_CallTupleDict u f h_args HPy_NULL r, HPy_Close u h_args]))"
  using assms(1-3)
  unfolding hpy_trace_on_exit_def create_trace_func_args_def Let_def u_def f_def name_def
    h_name_def h_args_def r_def info1_def
  by (simp add: clock_status_def in_int32_def CLOCK_FAILED_def)

text \<open>
  For the trace record with observers, 0 is a valid operation id and the accumulation of
  the interval from (0s, 999999999ns) to (1s, 1ns) returns; two runs of on-exit on it.
\<close>

lemma info_observed_valid:
  "(0::int) \<le> 0"
  "0 < int (length (durations info_observed))"
  "update_duration False (durations info_observed ! nat 0)
     \<lparr>tv_sec = 0, tv_nsec = 999999999\<rparr> \<lparr>tv_sec = 1, tv_nsec = 1\<rparr> = Inr \<lparr>tv_sec = 0, tv_nsec = 2\<rparr>"
  by (simp_all add: fixture_defs update_duration_def update_duration_values_def assert_result_def
      in_int64_def FREQ_NSEC_def zero_time_def)

lemma on_exit_ok:
  "hpy_trace_on_exit False env_ok info_observed 0 (clock_status ClockOk) (clock_status ClockOk)
       \<lparr>tv_sec = 0, tv_nsec = 999999999\<rparr> \<lparr>tv_sec = 1, tv_nsec = 1\<rparr> =
     (Returned (),
      info_observed\<lparr>durations := [\<lparr>tv_sec = 0, tv_nsec = 2\<rparr>, zero_time, zero_time]\<rparr>,
      [HPyUnicode_FromString 1 ''alloc'' 11, HPyTuple_FromArray 1 [11] 12, HPy_Close 1 11,
       HPy_CallTupleDict 1 22 12 0 13, HPy_Close 1 12])"
  by (simp add: hpy_trace_on_exit_def create_trace_func_args_def HPy_IsNull_def
      HPy_NULL_def fixture_defs in_int32_def CLOCK_FAILED_def update_duration_def
      update_duration_values_def assert_result_def in_int64_def FREQ_NSEC_def zero_time_def
      clock_status_def Let_def)

lemma on_exit_no_tuple:
  "hpy_trace_on_exit False env_no_tuple info_observed 0 (clock_status ClockOk) (clock_status ClockOk)
       \<lparr>tv_sec = 0, tv_nsec = 999999999\<rparr> \<lparr>tv_sec = 1, tv_nsec = 1\<rparr> =
     (Fatal ''could not create arguments for user trace function'',
      info_observed\<lparr>durations := [\<lparr>tv_sec = 0, tv_nsec = 2\<rparr>, zero_time, zero_time]\<rparr>,
      [HPyUnicode_FromString 1 ''alloc'' 11, HPyTuple_FromArray 1 [11] 0,
       HPy_FatalError 1 ''could not create arguments for user trace function''])"
  by (simp add: hpy_trace_on_exit_def create_trace_func_args_def HPy_IsNull_def
      HPy_NULL_def fixture_defs in_int32_def CLOCK_FAILED_def update_duration_def
      update_duration_values_def assert_result_def in_int64_def FREQ_NSEC_def zero_time_def
      clock_status_def Let_def)

subsection \<open>Observer fan-out\<close>

text \<open>
  C6, as stated: with an on-enter observer installed, every call of on-enter invokes the
  observer exactly once. Not when the name string cannot be created: the call takes the
  fatal-error path and the observer is not invoked at all.
\<close>

theorem C6_counterexample:
  "\<not> HPy_IsNull (on_enter_func info_observed)
   \<and> hpy_trace_on_enter env_no_string tctx_observed 0 =
     (Fatal ''could not create arguments for user trace function'',
      tctx_observed\<lparr>ctx_private := Some (info_observed\<lparr>call_counts := [1, 0, 0]\<rparr>)\<rparr>,
      [HPyUnicode_FromString 1 ''alloc'' 0,
       HPy_FatalError 1 ''could not create arguments for user trace function''])
   \<and> invocations [HPyUnicode_FromString 1 ''alloc'' 0,
       HPy_FatalError 1 ''could not create arguments for user trace function''] = []"
  by (simp add: hpy_trace_on_enter_def create_trace_func_args_def get_info_def HPy_IsNull_def
      HPy_NULL_def invocations_def fixture_defs)

text \<open>
  C6, amended: on-enter increments the counter of the operation whether an observer is
  installed or not, and however the call ends. Without an observer it does nothing else and
  returns. With an observer installed, a call in which the name string and the tuple are
  created invokes the observer exactly once, on the underlying context, with the tuple made
  of the one string made of the display name of the operation as the positional arguments
  and a null handle as the keyword arguments, and returns unless the observer gave a null
  handle; a call in which the string or the tuple cannot be created ends on the fatal-error
  path of the underlying context and does not invoke the observer.
\<close>

theorem C6_observer_fan_out:
  fixes e :: env
  assumes "get_info tctx = Some info" "0 \<le> opid" "opid < int (length (call_counts info))"
  defines "f \<equiv> on_enter_func info"
    and "h_name \<equiv> unicode_result e (hpy_trace_get_func_name e opid)"
    and "h_args \<equiv> tuple_result e [unicode_result e (hpy_trace_get_func_name e opid)]"
    and "info1 \<equiv> info\<lparr>call_counts :=
                    (call_counts info)[nat opid := call_counts info ! nat opid + 1]\<rparr>"
    and "st \<equiv> fst (hpy_trace_on_enter e tctx opid)"
    and "evs \<equiv> snd (snd (hpy_trace_on_enter e tctx opid))"
  shows "counters (fst (snd (hpy_trace_on_enter e tctx opid)))
           = (call_counts info)[nat opid := call_counts info ! nat opid + 1]
         \<and> (HPy_IsNull f \<longrightarrow> st = Returned info1 \<and> evs = [])
         \<and> (\<not> HPy_IsNull f \<and> \<not> HPy_IsNull h_name \<and> \<not> HPy_IsNull h_args
              \<longrightarrow> invocations evs =
                    [HPy_CallTupleDict (uctx info) f h_args HPy_NULL
                       (call_result e info1 f h_args HPy_NULL)]
                  \<and> take 2 evs =
                    [HPyUnicode_FromString (uctx info) (hpy_trace_get_func_name e opid) h_name,
                     HPyTuple_FromArray (uctx info) [h_name] h_args]
                  \<and> st = (if HPy_IsNull (call_result e info1 f h_args HPy_NULL)
                          then Fatal ''error when executing on-enter trace function''
                          else Returned info1))
         \<and> (\<not> HPy_IsNull f \<and> (HPy_IsNull h_name \<or> HPy_IsNull h_args)
              \<longrightarrow> st = Fatal ''could not create arguments for user trace function''
                  \<and> invocations evs = []
                  \<and> last evs = HPy_FatalError (uctx info)
                                 ''could not create arguments for user trace function'')"
  unfolding st_def evs_def f_def h_name_def h_args_def info1_def on_enter_result [OF assms(1-3)]
  by (simp add: counters_def get_info_def invocations_def)

text \<open>
  C6, amended, at the run in which every external operation succeeds and at the run in
  which the name string cannot be created.
\<close>

theorem C6_observer_fan_out_witness:
  "counters (fst (snd (hpy_trace_on_enter env_ok tctx_observed 0))) = [1, 0, 0]
   \<and> fst (hpy_trace_on_enter env_ok tctx_observed 0)
       = Returned (info_observed\<lparr>call_counts := [1, 0, 0]\<rparr>)
   \<and> invocations (snd (snd (hpy_trace_on_enter env_ok tctx_observed 0)))
       = [HPy_CallTupleDict 1 21 12 0 13]
   \<and> take 2 (snd (snd (hpy_trace_on_enter env_ok tctx_observed 0)))
       = [HPyUnicode_FromString 1 ''alloc'' 11, HPyTuple_FromArray 1 [11] 12]
   \<and> counters (fst (snd (hpy_trace_on_enter env_no_string tctx_observed 0))) = [1, 0, 0]
   \<and> fst (hpy_trace_on_enter env_no_string tctx_observed 0)
       = Fatal ''could not create arguments for user trace function''
   \<and> invocations (snd (snd (hpy_trace_on_enter env_no_string tctx_observed 0))) = []"
  using C6_observer_fan_out [OF tctx_observed_valid, of env_ok]
    C6_observer_fan_out [OF tctx_observed_valid, of env_no_string]
  by (simp add: on_enter_ok on_enter_no_string counters_def get_info_def invocations_def)

subsection \<open>Release of the argument resources\<close>

text \<open>
  C9, as stated: on every path, the name string and the tuple are released before the call
  returns or takes the fatal-error path. Not when the tuple cannot be created: the jump to
  the fatal error passes over the release of the name string.
\<close>

theorem C9_counterexample:
  "\<not> HPy_IsNull (on_enter_func info_observed)
   \<and> hpy_trace_on_enter env_no_tuple tctx_observed 0 =
     (Fatal ''could not create arguments for user trace function'',
      tctx_observed\<lparr>ctx_private := Some (info_observed\<lparr>call_counts := [1, 0, 0]\<rparr>)\<rparr>,
      [HPyUnicode_FromString 1 ''alloc'' 11, HPyTuple_FromArray 1 [11] 0,
       HPy_FatalError 1 ''could not create arguments for user trace function''])
   \<and> unreleased_args [HPyUnicode_FromString 1 ''alloc'' 11, HPyTuple_FromArray 1 [11] 0,
       HPy_FatalError 1 ''could not create arguments for user trace function''] = [11]"
  by (simp add: hpy_trace_on_enter_def create_trace_func_args_def get_info_def HPy_IsNull_def
      HPy_NULL_def fixture_defs)

text \<open>
  C9, amended: in on-enter, and in on-exit once the duration is accumulated, the call ends
  in one of three ways. When it returns, no argument resource is left unreleased. When the
  observer gave a null handle, the call ends on the fatal-error path, the fatal error is its
  last event and both resources are released before it. When the name string or the tuple
  cannot be created, the call ends on the fatal-error path with the fatal error as its last
  event; nothing was acquired when it was the string that failed, and when it was the tuple
  the name string is left unreleased.
\<close>

theorem C9_argument_resources:
  fixes e :: env
  assumes "get_info tctx = Some info" "0 \<le> opid" "opid < int (length (call_counts info))"
    and "0 \<le> opid2" "opid2 < int (length (durations info2))"
    and "update_duration ndebug (durations info2 ! nat opid2) ts_start ts_end = Inr d"
  defines "h_name \<equiv> unicode_result e (hpy_trace_get_func_name e opid)"
    and "h_args \<equiv> tuple_result e [unicode_result e (hpy_trace_get_func_name e opid)]"
    and "info1 \<equiv> info\<lparr>call_counts :=
                    (call_counts info)[nat opid := call_counts info ! nat opid + 1]\<rparr>"
    and "st \<equiv> fst (hpy_trace_on_enter e tctx opid)"
    and "evs \<equiv> snd (snd (hpy_trace_on_enter e tctx opid))"
    and "h_name2 \<equiv> unicode_result e (hpy_trace_get_func_name e opid2)"
    and "h_args2 \<equiv> tuple_result e [unicode_result e (hpy_trace_get_func_name e opid2)]"
    and "info3 \<equiv> info2\<lparr>durations := (durations info2)[nat opid2 := d]\<rparr>"
    and "st2 \<equiv> fst (hpy_trace_on_exit ndebug e info2 opid2 (clock_status ClockOk)
                      (clock_status ClockOk) ts_start ts_end)"
    and "evs2 \<equiv> snd (snd (hpy_trace_on_exit ndebug e info2 opid2 (clock_status ClockOk)
                      (clock_status ClockOk) ts_start ts_end))"
  shows "st = (if HPy_IsNull (on_enter_func info) then Returned info1
               else if HPy_IsNull h_name \<or> HPy_IsNull h_args
                 then Fatal ''could not create arguments for user trace function''
               else if HPy_IsNull (call_result e info1 (on_enter_func info) h_args HPy_NULL)
                 then Fatal ''error when executing on-enter trace function''
               else Returned info1)
         \<and> (st = Returned info1 \<longrightarrow> unreleased_args evs = [])
         \<and> (st = Fatal ''error when executing on-enter trace function''
              \<longrightarrow> unreleased_args evs = []
                  \<and> last evs = HPy_FatalError (uctx info)
                                 ''error when executing on-enter trace function'')
         \<and> (st = Fatal ''could not create arguments for user trace function''
              \<longrightarrow> unreleased_args evs = (if HPy_IsNull h_name then [] else [h_name])
                  \<and> last evs = HPy_FatalError (uctx info)
                                 ''could not create arguments for user trace function'')
         \<and> st2 = (if HPy_IsNull (on_exit_func info2) then Returned ()
               else if HPy_IsNull h_name2 \<or> HPy_IsNull h_args2
                 then Fatal ''could not create arguments for user trace function''
               else if HPy_IsNull (call_result e info3 (on_exit_func info2) h_args2 HPy_NULL)
                 then Fatal ''error when executing on-exit trace function''
               else Returned ())
         \<and> (st2 = Returned () \<longrightarrow> unreleased_args evs2 = [])
         \<and> (st2 = Fatal ''error when executing on-exit trace function''
              \<longrightarrow> unreleased_args evs2 = []
                  \<and> last evs2 = HPy_FatalError (uctx info2)
                                  ''error when executing on-exit trace function'')
         \<and> (st2 = Fatal ''could not create arguments for user trace function''
              \<longrightarrow> unreleased_args evs2 = (if HPy_IsNull h_name2 then [] else [h_name2])
                  \<and> last evs2 = HPy_FatalError (uctx info2)
                                  ''could not create arguments for user trace function'')"
proof -
  have enter: "st = (if HPy_IsNull (on_enter_func info) then Returned info1
               else if HPy_IsNull h_name \<or> HPy_IsNull h_args
                 then Fatal ''could not create arguments for user trace function''
               else if HPy_IsNull (call_result e info1 (on_enter_func info) h_args HPy_NULL)
                 then Fatal ''error when executing on-enter trace function''
               else Returned info1)
         \<and> (st = Returned info1 \<longrightarrow> unreleased_args evs = [])
         \<and> (st = Fatal ''error when executing on-enter trace function''
              \<longrightarrow> unreleased_args evs = []
                  \<and> last evs = HPy_FatalError (uctx info)
                                 ''error when executing on-enter trace function'')
         \<and> (st = Fatal ''could not create arguments for user trace function''
              \<longrightarrow> unreleased_args evs = (if HPy_IsNull h_name then [] else [h_name])
                  \<and> last evs = HPy_FatalError (uctx info)
                                 ''could not create arguments for user trace function'')"
    unfolding st_def evs_def h_name_def h_args_def info1_def on_enter_result [OF assms(1-3)]
    by (simp add: HPy_IsNull_def)
  have exit: "st2 = (if HPy_IsNull (on_exit_func info2) then Returned ()
               else if HPy_IsNull h_name2 \<or> HPy_IsNull h_args2
                 then Fatal ''could not create arguments for user trace function''
               else if HPy_IsNull (call_result e info3 (on_exit_func info2) h_args2 HPy_NULL)
                 then Fatal ''error when executing on-exit trace function''
               else Returned ())
         \<and> (st2 = Returned () \<longrightarrow> unreleased_args evs2 = [])
         \<and> (st2 = Fatal ''error when executing on-exit trace function''
              \<longrightarrow> unreleased_args evs2 = []
                  \<and> last evs2 = HPy_FatalError (uctx info2)
                                  ''error when executing on-exit trace function'')
         \<and> (st2 = Fatal ''could not create arguments for user trace function''
              \<longrightarrow> unreleased_args evs2 = (if HPy_IsNull h_name2 then [] else [h_name2])
                  \<and> last evs2 = HPy_FatalError (uctx info2)
                                  ''could not create arguments for user trace function'')"
    unfolding st2_def evs2_def h_name2_def h_args2_def info3_def on_exit_result [OF assms(4-6)]
    by (simp add: HPy_IsNull_def)
  show ?thesis using enter exit by blast
qed

text \<open>
  C9, amended, at runs of on-enter and of on-exit: every external operation succeeds, and
  the tuple cannot be created.
\<close>

theorem C9_argument_resources_witness:
  "fst (hpy_trace_on_enter env_ok tctx_observed 0)
     = Returned (info_observed\<lparr>call_counts := [1, 0, 0]\<rparr>)
   \<and> unreleased_args (snd (snd (hpy_trace_on_enter env_ok tctx_observed 0))) = []
   \<and> fst (hpy_trace_on_enter env_no_tuple tctx_observed 0)
     = Fatal ''could not create arguments for user trace function''
   \<and> unreleased_args (snd (snd (hpy_trace_on_enter env_no_tuple tctx_observed 0))) = [11]
   \<and> fst (hpy_trace_on_exit False env_ok info_observed 0 (clock_status ClockOk)
            (clock_status ClockOk) \<lparr>tv_sec = 0, tv_nsec = 999999999\<rparr> \<lparr>tv_sec = 1, tv_nsec = 1\<rparr>)
     = Returned ()
   \<and> unreleased_args (snd (snd (hpy_trace_on_exit False env_ok info_observed 0
            (clock_status ClockOk) (clock_status ClockOk)
            \<lparr>tv_sec = 0, tv_nsec = 999999999\<rparr> \<lparr>tv_sec = 1, tv_nsec = 1\<rparr>))) = []
   \<and> fst (hpy_trace_on_exit False env_no_tuple info_observed 0 (clock_status ClockOk)
            (clock_status ClockOk) \<lparr>tv_sec = 0, tv_nsec = 999999999\<rparr> \<lparr>tv_sec = 1, tv_nsec = 1\<rparr>)
     = Fatal ''could not create arguments for user trace function''
   \<and> unreleased_args (snd (snd (hpy_trace_on_exit False env_no_tuple info_observed 0
            (clock_status ClockOk) (clock_status ClockOk)
            \<lparr>tv_sec = 0, tv_nsec = 999999999\<rparr> \<lparr>tv_sec = 1, tv_nsec = 1\<rparr>))) = [11]"
  using C9_argument_resources [OF tctx_observed_valid info_observed_valid, of env_ok]
    C9_argument_resources [OF tctx_observed_valid info_observed_valid, of env_no_tuple]
  by (simp add: on_enter_ok on_enter_no_tuple on_exit_ok on_exit_no_tuple HPy_IsNull_def)

subsection \<open>Counting calls\<close>







end
